theory Spec2Isabelle
  imports Complex_Main "HOL-Library.Word" "HOL-Library.Monad_Syntax"
begin

unbundle bit_operations_syntax

section \<open>JavaScript values and the built-ins the script relies on\<close>

text \<open>
  A JavaScript string is a sequence of UTF-16 code units; the script scans strings
  unit by unit (\<open>parseInt\<close>, \<open>replace\<close>, \<open>substring\<close>), so they are lists of code
  units here, and \<open>jstr\<close> writes down an ASCII literal. Texts that the script only
  builds and hands on (status messages, the raw data of a socket message) are
  Isabelle strings.
\<close>

type_synonym jstring = "nat list"

definition jstr :: "string \<Rightarrow> jstring" where
  "jstr s = map of_char s"

text \<open>
  The script reads cell records that come out of \<open>JSON.parse\<close> (the configuration
  document and the live messages), so a field can hold any JSON value. \<open>JUndefined\<close>
  is what reading a missing property gives. A Number enters the code modelled here
  only through ToString (inside \<open>parseInt\<close>), ToBoolean and a call of \<open>toFixed\<close>, so
  \<open>JNum\<close> carries the text that ToString gives for the number: \<open>20\<close>, \<open>-3.5\<close>,
  \<open>1e+21\<close>. A \<open>JObj\<close> lists the own properties of the object, the first binding of a
  name being the one a property read returns.
\<close>

datatype jsval =
    JUndefined
  | JNull
  | JBool bool
  | JNum jstring
  | JStr jstring
  | JArr "jsval list"
  | JObj "(jstring \<times> jsval) list"

datatype js_error = TypeError | RangeError

text \<open>
  The Numbers the script computes with are the results of \<open>parseInt\<close>: NaN, an
  integer-valued double, or an infinity (a digit run too long for a double). Minus
  zero is not told apart from zero: the script never divides by it.
  \<open>round_double\<close> rounds an integer to the nearest double, ties to even, and to an
  infinity from \<open>2 ^ 1024 - 2 ^ 970\<close> on. \<open>num_add\<close>, \<open>num_le\<close>, \<open>num_less\<close> and
  \<open>num_ge\<close> are \<open>+\<close>, \<open><=\<close>, \<open><\<close> and \<open>>=\<close> on these Numbers; a comparison with NaN
  is false.
\<close>

datatype number = NaN | Finite int | Infinity | NegInfinity

fun bit_length :: "nat \<Rightarrow> nat" where
  "bit_length n = (if n = 0 then 0 else Suc (bit_length (n div 2)))"

declare bit_length.simps [simp del]

definition round_double :: "int \<Rightarrow> number" where
  "round_double m =
     (let a = nat \<bar>m\<bar>;
          e = bit_length a - 53;
          q = a div 2 ^ e;
          r = a mod 2 ^ e;
          q = (if 2 * r > 2 ^ e \<or> (2 * r = 2 ^ e \<and> odd q) then q + 1 else q);
          v = q * 2 ^ e
      in if v \<ge> 2 ^ 1024 then (if m < 0 then NegInfinity else Infinity)
         else Finite (if m < 0 then - int v else int v))"

fun num_add :: "number \<Rightarrow> number \<Rightarrow> number" where
  "num_add (Finite a) (Finite b) = round_double (a + b)"
| "num_add NaN y = NaN"
| "num_add x NaN = NaN"
| "num_add Infinity NegInfinity = NaN"
| "num_add NegInfinity Infinity = NaN"
| "num_add Infinity y = Infinity"
| "num_add x Infinity = Infinity"
| "num_add NegInfinity y = NegInfinity"
| "num_add x NegInfinity = NegInfinity"

fun num_le :: "number \<Rightarrow> number \<Rightarrow> bool" where
  "num_le NaN y = False"
| "num_le x NaN = False"
| "num_le (Finite a) (Finite b) = (a \<le> b)"
| "num_le NegInfinity y = True"
| "num_le x Infinity = True"
| "num_le x y = False"

fun num_less :: "number \<Rightarrow> number \<Rightarrow> bool" where
  "num_less NaN y = False"
| "num_less x NaN = False"
| "num_less (Finite a) (Finite b) = (a < b)"
| "num_less Infinity y = False"
| "num_less x NegInfinity = False"
| "num_less x y = True"

definition num_ge :: "number \<Rightarrow> number \<Rightarrow> bool" where
  "num_ge a b = num_le b a"

text \<open>\<open>Number.prototype.toString(radix)\<close> on an integer below \<open>10 ^ 21\<close> (the script
  prints a packed colour and a close code, both below \<open>2 ^ 16\<close>): lower-case digits,
  a leading minus sign for a negative one.\<close>

definition digit_char :: "nat \<Rightarrow> char" where
  "digit_char d = (''0123456789abcdefghijklmnopqrstuvwxyz'' ! d)"

fun nat_digits :: "nat \<Rightarrow> nat \<Rightarrow> string" where
  "nat_digits radix n =
     (if radix < 2 \<or> n < radix then [digit_char n]
      else nat_digits radix (n div radix) @ [digit_char (n mod radix)])"

declare nat_digits.simps [simp del]

definition Number_toString :: "nat \<Rightarrow> int \<Rightarrow> string" where
  "Number_toString radix n =
     (if n < 0 then CHR ''-'' # nat_digits radix (nat (- n)) else nat_digits radix (nat n))"

text \<open>ToBoolean: the falsy values are \<open>undefined\<close>, \<open>null\<close>, \<open>false\<close>, the numbers
  0 and NaN (minus zero prints as \<open>0\<close>) and the empty text; every other value is
  truthy.\<close>

fun truthy :: "jsval \<Rightarrow> bool" where
  "truthy JUndefined = False"
| "truthy JNull = False"
| "truthy (JBool b) = b"
| "truthy (JNum t) = (t \<noteq> jstr ''0'' \<and> t \<noteq> jstr ''NaN'')"
| "truthy (JStr s) = (s \<noteq> [])"
| "truthy (JArr vs) = True"
| "truthy (JObj kvs) = True"

fun nullish :: "jsval \<Rightarrow> bool" where
  "nullish JUndefined = True"
| "nullish JNull = True"
| "nullish v = False"

fun isArray :: "jsval \<Rightarrow> bool" where
  "isArray (JArr vs) = True"
| "isArray v = False"

text \<open>
  Reading a property \<open>v.k\<close>. On \<open>null\<close> and \<open>undefined\<close> the read throws a
  TypeError (\<open>None\<close>). The names the script reads (\<open>cells\<close>, \<open>enabled\<close>, \<open>posx\<close>,
  \<open>value\<close>, ...) are not properties of primitives or of arrays and are not
  inherited by objects, so the read gives \<open>undefined\<close> on a primitive, on an array
  and on an object without such a property of its own.
\<close>

fun get_prop :: "jsval \<Rightarrow> jstring \<Rightarrow> jsval option" where
  "get_prop JUndefined k = None"
| "get_prop JNull k = None"
| "get_prop (JObj kvs) k = Some (case map_of kvs k of None \<Rightarrow> JUndefined | Some v \<Rightarrow> v)"
| "get_prop v k = Some JUndefined"

text \<open>
  The abstract operation ToString; \<open>None\<close> is a TypeError. An array prints its
  elements separated by commas, \<open>null\<close> and \<open>undefined\<close> elements as the empty text
  (\<open>Array.prototype.join\<close>). An object prints as \<open>[object Object]\<close> through the
  inherited \<open>toString\<close>; an object with an own property \<open>toString\<close> (never a function
  in a JSON value) cannot be converted: the own property hides the inherited method,
  the inherited \<open>valueOf\<close> returns the object itself, and the conversion throws.
\<close>

fun join_comma :: "jstring list \<Rightarrow> jstring" where
  "join_comma [] = []"
| "join_comma [s] = s"
| "join_comma (s # t # ss) = s @ jstr '','' @ join_comma (t # ss)"

fun ToString :: "jsval \<Rightarrow> jstring option" where
  "ToString JUndefined = Some (jstr ''undefined'')"
| "ToString JNull = Some (jstr ''null'')"
| "ToString (JBool b) = Some (if b then jstr ''true'' else jstr ''false'')"
| "ToString (JNum t) = Some t"
| "ToString (JStr s) = Some s"
| "ToString (JArr vs) =
     map_option join_comma
       (those (map (\<lambda>v. if v = JUndefined \<or> v = JNull then Some [] else ToString v) vs))"
| "ToString (JObj kvs) =
     (if map_of kvs (jstr ''toString'') = None then Some (jstr ''[object Object]'') else None)"

text \<open>
  \<open>parseInt(v, radix)\<close>: ToString (which may throw), skip leading white space, read
  an optional sign, for radix 16 skip a \<open>0x\<close> prefix, then read the longest run of
  digits of the radix; the integer read is rounded to the nearest double, as the
  engines do (the standard lets an implementation replace the decimal digits after
  the 20th by zeros). NaN when no digit was read. \<open>is_ws\<close> is the white space and line terminator set of the language: TAB, LF,
  VT, FF, CR, SP, NBSP, U+1680, U+2000..U+200A, U+2028, U+2029, U+202F, U+205F, U+3000
  and U+FEFF.
\<close>

definition is_ws :: "nat \<Rightarrow> bool" where
  "is_ws c = (c = 0x09 \<or> c = 0x0A \<or> c = 0x0B \<or> c = 0x0C \<or> c = 0x0D \<or> c = 0x20
               \<or> c = 0xA0 \<or> c = 0x1680 \<or> (0x2000 \<le> c \<and> c \<le> 0x200A)
               \<or> c = 0x2028 \<or> c = 0x2029 \<or> c = 0x202F \<or> c = 0x205F
               \<or> c = 0x3000 \<or> c = 0xFEFF)"

definition digit_val :: "nat \<Rightarrow> nat \<Rightarrow> nat option" where
  "digit_val radix c =
     (let v = (if 48 \<le> c \<and> c \<le> 57 then Some (c - 48)
               else if 97 \<le> c \<and> c \<le> 122 then Some (c - 87)
               else if 65 \<le> c \<and> c \<le> 90 then Some (c - 55)
               else None)
      in case v of None \<Rightarrow> None | Some d \<Rightarrow> if d < radix then Some d else None)"

fun digits_value :: "nat \<Rightarrow> jstring \<Rightarrow> nat option \<Rightarrow> nat option" where
  "digits_value radix [] acc = acc"
| "digits_value radix (c # cs) acc =
     (case digit_val radix c of
        None \<Rightarrow> acc
      | Some d \<Rightarrow>
          digits_value radix cs (Some ((case acc of None \<Rightarrow> 0 | Some a \<Rightarrow> a) * radix + d)))"

definition parseInt_text :: "jstring \<Rightarrow> nat \<Rightarrow> number" where
  "parseInt_text inputString radix =
     (let S = dropWhile is_ws inputString;
          neg = (take 1 S = jstr ''-'');
          S = (if take 1 S = jstr ''-'' \<or> take 1 S = jstr ''+'' then drop 1 S else S);
          S = (if radix = 16 \<and> (take 2 S = jstr ''0x'' \<or> take 2 S = jstr ''0X'')
               then drop 2 S else S)
      in case digits_value radix S None of
           None \<Rightarrow> NaN
         | Some m \<Rightarrow> round_double (if neg then - int m else int m))"

definition parseInt :: "jsval \<Rightarrow> nat \<Rightarrow> number option" where
  "parseInt v radix = map_option (\<lambda>inputString. parseInt_text inputString radix) (ToString v)"

text \<open>\<open>n || d\<close> on a Number: NaN and 0 are falsy and give \<open>d\<close>.\<close>

definition or_default :: "number \<Rightarrow> int \<Rightarrow> number" where
  "or_default n d = (if n = NaN \<or> n = Finite 0 then Finite d else n)"

text \<open>
  The bitwise operators work on 32-bit two's complement integers: each operand goes
  through ToInt32, a shift count is taken modulo 32, \<open>>>\<close> keeps the sign. As an
  operand, NaN and the infinities are 0 (\<open>int_operand\<close>).
\<close>

definition ToInt32 :: "int \<Rightarrow> int" where
  "ToInt32 n = signed_take_bit 31 n"

definition int_operand :: "number \<Rightarrow> int" where
  "int_operand n = (case n of Finite m \<Rightarrow> m | _ \<Rightarrow> 0)"

definition js_shr :: "int \<Rightarrow> nat \<Rightarrow> int" where
  "js_shr a n = drop_bit (n mod 32) (ToInt32 a)"

definition js_shl :: "int \<Rightarrow> nat \<Rightarrow> int" where
  "js_shl a n = ToInt32 (push_bit (n mod 32) (ToInt32 a))"

definition js_and :: "int \<Rightarrow> int \<Rightarrow> int" where
  "js_and a b = ToInt32 a AND ToInt32 b"

definition js_or :: "int \<Rightarrow> int \<Rightarrow> int" where
  "js_or a b = ToInt32 a OR ToInt32 b"

text \<open>String helpers: \<open>replace\<close> with a one-character pattern and an empty
  replacement removes the first occurrence; \<open>substring(a, b)\<close>; \<open>padStart\<close>.\<close>

fun remove_first :: "nat \<Rightarrow> jstring \<Rightarrow> jstring" where
  "remove_first c [] = []"
| "remove_first c (x # xs) = (if x = c then xs else x # remove_first c xs)"

definition substring :: "jstring \<Rightarrow> nat \<Rightarrow> nat \<Rightarrow> jstring" where
  "substring s a b = take (max a b - min a b) (drop (min a b) s)"

definition padStart :: "jstring \<Rightarrow> nat \<Rightarrow> nat \<Rightarrow> jstring" where
  "padStart s n c = replicate (n - length s) c @ s"

section \<open>Utility functions: the colour codec\<close>

text \<open>
  \<open>rgb565ToRgb888(rgb565)\<close>. \<open>rgb565_channels\<close> is the value of the locals \<open>r\<close>,
  \<open>g\<close>, \<open>b\<close> after the rounding step; the function returns them packed. The argument
  is used as a bitwise operand only, so it is given as the integer \<open>int_operand\<close>
  makes of the Number.
\<close>

definition rgb565_channels :: "int \<Rightarrow> int \<times> int \<times> int" where
  "rgb565_channels rgb565 =
     (let r = js_shl (js_and (js_shr rgb565 11) 0x1F) 3;
          g = js_shl (js_and (js_shr rgb565 5) 0x3F) 2;
          b = js_shl (js_and rgb565 0x1F) 3;
          r = r + js_shr r 5;
          g = g + js_shr g 6;
          b = b + js_shr b 5
      in (r, g, b))"

definition rgb565ToRgb888 :: "int \<Rightarrow> int" where
  "rgb565ToRgb888 rgb565 =
     (case rgb565_channels rgb565 of
        (r, g, b) \<Rightarrow> js_or (js_or (js_shl r 16) (js_shl g 8)) b)"

text \<open>\<open>rgb888ToRgb565(hexColor)\<close>: the result is the text \<open>0x\<close> followed by at
  least four hexadecimal digits. \<open>parseInt\<close> is applied to strings here, which
  ToString leaves as they are.\<close>

definition rgb888ToRgb565 :: "jstring \<Rightarrow> jstring" where
  "rgb888ToRgb565 hexColor =
     (let hex = remove_first (of_char CHR ''#'') hexColor;
          r = parseInt_text (substring hex 0 2) 16;
          g = parseInt_text (substring hex 2 4) 16;
          b = parseInt_text (substring hex 4 6) 16;
          r5 = js_and (js_shr (int_operand r) 3) 0x1F;
          g6 = js_and (js_shr (int_operand g) 2) 0x3F;
          b5 = js_and (js_shr (int_operand b) 3) 0x1F;
          rgb565 = js_or (js_or (js_shl r5 11) (js_shl g6 5)) b5
      in jstr ''0x'' @ padStart (jstr (Number_toString 16 rgb565)) 4 (of_char CHR ''0''))"

text \<open>The renderers read a stored colour back with \<open>parseInt(cell.bg_color, 16) || 0\<close>
  and hand it to \<open>rgb565ToRgb888\<close>; \<open>None\<close> when \<open>parseInt\<close> throws.\<close>

definition parse_color :: "jsval \<Rightarrow> int option" where
  "parse_color v = map_option (\<lambda>n. int_operand (or_default n 0)) (parseInt v 16)"

section \<open>Canvas manager\<close>

text \<open>
  \<open>drawCell\<close>, \<open>highlightCell\<close>, \<open>findCellAtPosition\<close> and \<open>drawLiveCell\<close> all start
  with the same four lines, \<open>const px = parseInt(cell.posx, 10) || 0\<close> and so on.
  \<open>geom_field\<close> is one such line for one of the four names \<open>geometry_keys\<close>,
  \<open>cell_rect\<close> the four of them in their order;
  \<open>None\<close> is the TypeError of the property read (the cell is \<open>null\<close> or \<open>undefined\<close>)
  or of \<open>parseInt\<close> (the field cannot be converted to text). Canvas output is not
  part of the model.
\<close>

definition geom_field :: "jsval \<Rightarrow> jstring \<Rightarrow> number option" where
  "geom_field cell k = do {
     v \<leftarrow> get_prop cell k;
     n \<leftarrow> parseInt v 10;
     Some (or_default n 0) }"

definition geometry_keys :: "jstring list" where
  "geometry_keys = [jstr ''posx'', jstr ''posy'', jstr ''sizex'', jstr ''sizey'']"

definition cell_rect :: "jsval \<Rightarrow> (number \<times> number \<times> number \<times> number) option" where
  "cell_rect cell = do {
     px \<leftarrow> geom_field cell (jstr ''posx'');
     py \<leftarrow> geom_field cell (jstr ''posy'');
     w \<leftarrow> geom_field cell (jstr ''sizex'');
     h \<leftarrow> geom_field cell (jstr ''sizey'');
     Some (px, py, w, h) }"

text \<open>\<open>Array.prototype.findIndex\<close> with a callback that may throw: the index of the
  first element the callback accepts, \<open>-1\<close> when there is none; an exception of the
  callback ends the scan.\<close>

fun findIndex_from :: "('a \<Rightarrow> bool option) \<Rightarrow> 'a list \<Rightarrow> int \<Rightarrow> int option" where
  "findIndex_from p [] i = Some (- 1)"
| "findIndex_from p (c # cs) i =
     (case p c of
        None \<Rightarrow> None
      | Some True \<Rightarrow> Some i
      | Some False \<Rightarrow> findIndex_from p cs (i + 1))"

definition findIndex :: "('a \<Rightarrow> bool option) \<Rightarrow> 'a list \<Rightarrow> int option" where
  "findIndex p xs = findIndex_from p xs 0"

text \<open>\<open>findCellAtPosition(x, y, cells)\<close>; the caller rounds \<open>x\<close> and \<open>y\<close> to integers.
  The comparisons and the two sums are those of Numbers.\<close>

definition findCellAtPosition :: "int \<Rightarrow> int \<Rightarrow> jsval list \<Rightarrow> int option" where
  "findCellAtPosition x y cells =
     findIndex (\<lambda>cell. do {
         (px, py, w, h) \<leftarrow> cell_rect cell;
         Some (num_ge (Finite x) px \<and> num_le (Finite x) (num_add px w)
               \<and> num_ge (Finite y) py \<and> num_le (Finite y) (num_add py h)) })
       cells"

section \<open>WebSocket manager\<close>

text \<open>
  The fields \<open>ws\<close> to \<open>shouldReconnect\<close> are those of the class. \<open>ws\<close> is a reference
  into \<open>sockets\<close>, the store of every WebSocket created so far with its \<open>readyState\<close>;
  \<open>None\<close> is \<open>null\<close>. \<open>messageCallback\<close> holds the subscriber: applied to a payload it
  tells whether the call returns (\<open>None\<close>) or throws an error with the given message.
  \<open>statusCallback\<close> tells whether a status subscriber is registered. The remaining
  fields are the surroundings: the pending \<open>setTimeout\<close> callbacks (each one calls
  \<open>connect\<close>) by their delay, the calls the status subscriber has received, the payloads
  the message subscriber has received, and \<open>window.location\<close>.
\<close>

datatype ready_state = CONNECTING | OPEN | CLOSING | CLOSED

datatype conn_status = Connecting | Connected | Disconnected | Error

record ws_manager =
  ws :: "nat option"
  reconnectAttempts :: nat
  maxReconnectAttempts :: nat
  reconnectDelay :: nat
  messageCallback :: "(jsval \<Rightarrow> string option) option"
  statusCallback :: bool
  messageCount :: nat
  lastMessageTime :: "int option"
  shouldReconnect :: bool
  sockets :: "ready_state list"
  timers :: "nat list"
  status_log :: "(conn_status \<times> string) list"
  delivered :: "jsval list"
  location_protocol :: string
  location_host :: string

definition WebSocketManager :: "string \<Rightarrow> string \<Rightarrow> ws_manager" where
  "WebSocketManager protocol host =
     \<lparr> ws = None, reconnectAttempts = 0, maxReconnectAttempts = 5, reconnectDelay = 2000,
       messageCallback = None, statusCallback = False, messageCount = 0,
       lastMessageTime = None, shouldReconnect = False,
       sockets = [], timers = [], status_log = [], delivered = [],
       location_protocol = protocol, location_host = host \<rparr>"

definition onMessage :: "(jsval \<Rightarrow> string option) \<Rightarrow> ws_manager \<Rightarrow> ws_manager" where
  "onMessage callback s = s\<lparr>messageCallback := Some callback\<rparr>"

definition onStatusChange :: "ws_manager \<Rightarrow> ws_manager" where
  "onStatusChange s = s\<lparr>statusCallback := True\<rparr>"

definition updateStatus :: "conn_status \<Rightarrow> string \<Rightarrow> ws_manager \<Rightarrow> ws_manager" where
  "updateStatus status message s =
     (if statusCallback s then s\<lparr>status_log := status_log s @ [(status, message)]\<rparr> else s)"

text \<open>The connection state is the status most recently handed to the subscriber.\<close>

definition current_status :: "ws_manager \<Rightarrow> conn_status option" where
  "current_status s = (case rev (status_log s) of [] \<Rightarrow> None | e # es \<Rightarrow> Some (fst e))"

text \<open>The guard of \<open>connect\<close>: \<open>this.ws && this.ws.readyState === WebSocket.OPEN\<close>.\<close>

definition ws_is_open :: "ws_manager \<Rightarrow> bool" where
  "ws_is_open s =
     (case ws s of
        None \<Rightarrow> False
      | Some i \<Rightarrow> i < length (sockets s) \<and> sockets s ! i = OPEN)"

text \<open>\<open>connect()\<close>. \<open>ctor_error\<close> is the outcome of \<open>new WebSocket(wsUrl)\<close>: \<open>None\<close> when
  the socket is created, the message of the exception when the constructor throws.\<close>

definition connect :: "string option \<Rightarrow> ws_manager \<Rightarrow> ws_manager" where
  "connect ctor_error s =
     (if ws_is_open s then s
      else
        let protocol = (if location_protocol s = ''https:'' then ''wss:'' else ''ws:'');
            wsUrl = protocol @ ''//'' @ location_host s @ ''/ws'';
            s = updateStatus Connecting (''Connecting to '' @ wsUrl @ ''...'') s
        in case ctor_error of
             Some message \<Rightarrow> updateStatus Error (''Connection failed: '' @ message) s
           | None \<Rightarrow>
               s\<lparr>ws := Some (length (sockets s)),
                 sockets := sockets s @ [CONNECTING],
                 shouldReconnect := True\<rparr>)"

text \<open>The four handlers \<open>connect\<close> installs on the socket. They read and write the
  manager only, so they are functions of its state.\<close>

definition ws_onopen :: "ws_manager \<Rightarrow> ws_manager" where
  "ws_onopen s =
     (let s = updateStatus Connected ''Connected - Waiting for data...'' s
      in s\<lparr>reconnectAttempts := 0\<rparr>)"

text \<open>\<open>JSON_parse\<close> stands for the built-in \<open>JSON.parse\<close>: \<open>Inl\<close> carries the message
  of the SyntaxError it throws, \<open>Inr\<close> the decoded value. \<open>now\<close> is \<open>Date.now()\<close>.\<close>

definition ws_onmessage ::
  "(string \<Rightarrow> string + jsval) \<Rightarrow> string \<Rightarrow> int \<Rightarrow> ws_manager \<Rightarrow> ws_manager" where
  "ws_onmessage JSON_parse event_data now s =
     (let s = s\<lparr>messageCount := messageCount s + 1\<rparr>;
          s = s\<lparr>lastMessageTime := Some now\<rparr>
      in case JSON_parse event_data of
           Inl message \<Rightarrow> updateStatus Error (''Error parsing data: '' @ message) s
         | Inr data \<Rightarrow>
             (case messageCallback s of
                None \<Rightarrow> updateStatus Connected ''Connected - Receiving updates'' s
              | Some callback \<Rightarrow>
                  (let s = s\<lparr>delivered := delivered s @ [data]\<rparr>
                   in case callback data of
                        Some message \<Rightarrow>
                          updateStatus Error (''Error parsing data: '' @ message) s
                      | None \<Rightarrow> updateStatus Connected ''Connected - Receiving updates'' s)))"

definition ws_onerror :: "ws_manager \<Rightarrow> ws_manager" where
  "ws_onerror s = updateStatus Error ''Connection error'' s"

definition ws_onclose :: "nat \<Rightarrow> ws_manager \<Rightarrow> ws_manager" where
  "ws_onclose code s =
     (let s = updateStatus Disconnected
                (''Disconnected (Code: '' @ Number_toString 10 (int code) @ '')'') s
      in if shouldReconnect s \<and> reconnectAttempts s < maxReconnectAttempts s then
           (let s = s\<lparr>reconnectAttempts := reconnectAttempts s + 1\<rparr>
            in s\<lparr>timers := timers s @ [reconnectDelay s]\<rparr>)
         else s)"

text \<open>The callback handed to \<open>setTimeout\<close> in the close handler: it calls \<open>connect\<close>
  and nothing else. The oldest pending timer fires first.\<close>

definition reconnect_timer_fires :: "string option \<Rightarrow> ws_manager \<Rightarrow> ws_manager" where
  "reconnect_timer_fires ctor_error s =
     (case timers s of
        [] \<Rightarrow> s
      | d # ds \<Rightarrow> connect ctor_error (s\<lparr>timers := ds\<rparr>))"

text \<open>\<open>WebSocket.close()\<close> moves a connecting or open socket to CLOSING; its close
  event comes later.\<close>

definition socket_close :: "nat \<Rightarrow> ready_state list \<Rightarrow> ready_state list" where
  "socket_close i socks =
     (if i < length socks \<and> (socks ! i = CONNECTING \<or> socks ! i = OPEN)
      then socks[i := CLOSING] else socks)"

definition disconnect :: "ws_manager \<Rightarrow> ws_manager" where
  "disconnect s =
     (let s = s\<lparr>shouldReconnect := False\<rparr>;
          s = s\<lparr>reconnectAttempts := maxReconnectAttempts s\<rparr>
      in case ws s of
           None \<Rightarrow> s
         | Some i \<Rightarrow>
             (let s = s\<lparr>sockets := socket_close i (sockets s)\<rparr>;
                  s = s\<lparr>ws := None\<rparr>
              in updateStatus Disconnected ''Manually disconnected'' s))"

text \<open>What the browser does when socket \<open>i\<close> opens or closes: it sets the socket's
  \<open>readyState\<close> and then runs the handler.\<close>

definition socket_opens :: "nat \<Rightarrow> ws_manager \<Rightarrow> ws_manager" where
  "socket_opens i s = ws_onopen (s\<lparr>sockets := (sockets s)[i := OPEN]\<rparr>)"

definition socket_closes :: "nat \<Rightarrow> nat \<Rightarrow> ws_manager \<Rightarrow> ws_manager" where
  "socket_closes i code s = ws_onclose code (s\<lparr>sockets := (sockets s)[i := CLOSED]\<rparr>)"

text \<open>
  The events the manager reacts to, and a run of them. \<open>Call_connect\<close> and
  \<open>Call_disconnect\<close> are the two buttons of the live page; the others come from the
  browser: socket \<open>i\<close> of the store opens, delivers a message, reports an error or
  closes, or the oldest reconnect timer fires.
\<close>

datatype ws_event =
    Call_connect "string option"
  | Call_disconnect
  | Socket_opens nat
  | Socket_message nat "string \<Rightarrow> string + jsval" string int
  | Socket_error nat
  | Socket_closes nat nat
  | Timer_fires "string option"

fun step :: "ws_event \<Rightarrow> ws_manager \<Rightarrow> ws_manager" where
  "step (Call_connect ctor_error) s = connect ctor_error s"
| "step Call_disconnect s = disconnect s"
| "step (Socket_opens i) s = socket_opens i s"
| "step (Socket_message i JSON_parse event_data now) s =
     ws_onmessage JSON_parse event_data now s"
| "step (Socket_error i) s = ws_onerror s"
| "step (Socket_closes i code) s = socket_closes i code s"
| "step (Timer_fires ctor_error) s = reconnect_timer_fires ctor_error s"

fun run :: "ws_event list \<Rightarrow> ws_manager \<Rightarrow> ws_manager" where
  "run [] s = s"
| "run (e # es) s = run es (step e s)"









section \<open>Live data manager\<close>

record live_data_manager =
  currentCells :: "jsval list"
  updateRateWindow :: "int list"
  updateRateWindowSize :: nat

definition LiveDataManager :: live_data_manager where
  "LiveDataManager = \<lparr> currentCells = [], updateRateWindow = [], updateRateWindowSize = 10 \<rparr>"

text \<open>\<open>Array.prototype.filter\<close> and \<open>forEach\<close> with callbacks that may throw.\<close>

fun js_filter :: "('a \<Rightarrow> bool option) \<Rightarrow> 'a list \<Rightarrow> 'a list option" where
  "js_filter p [] = Some []"
| "js_filter p (x # xs) =
     (case p x of
        None \<Rightarrow> None
      | Some keep \<Rightarrow>
          (case js_filter p xs of
             None \<Rightarrow> None
           | Some ys \<Rightarrow> Some (if keep then x # ys else ys)))"

fun forEach :: "('a \<Rightarrow> js_error option) \<Rightarrow> 'a list \<Rightarrow> js_error option" where
  "forEach f [] = None"
| "forEach f (x # xs) = (case f x of Some e \<Rightarrow> Some e | None \<Rightarrow> forEach f xs)"

text \<open>
  \<open>cell.value.toFixed(decimals)\<close> throws a TypeError when \<open>value\<close> is not a number (it
  has no \<open>toFixed\<close> to call) and a RangeError when \<open>decimals\<close> is not within 0..100.
\<close>

definition toFixed :: "jsval \<Rightarrow> number \<Rightarrow> js_error option" where
  "toFixed v decimals =
     (case v of
        JNum n \<Rightarrow>
          (case decimals of
             Finite d \<Rightarrow> if d < 0 \<or> 100 < d then Some RangeError else None
           | _ \<Rightarrow> Some RangeError)
      | _ \<Rightarrow> Some TypeError)"

text \<open>
  Of \<open>drawLiveCell\<close> the model keeps the exceptions, in the order of the statements
  that can throw: the four geometry fields, the two colours (\<open>parseInt\<close> converts its
  argument to text), \<open>parseInt(cell.decimalPlaces, 10)\<close> and \<open>toFixed\<close> when the
  number is formatted, and the conversion of \<open>str_value\<close> to text when \<open>fillText\<close>
  is reached with it. The canvas calls themselves take any number and do not throw.
  \<open>None\<close> means the cell was drawn.
\<close>

definition drawLiveCell :: "jsval \<Rightarrow> js_error option" where
  "drawLiveCell cell =
     (case cell_rect cell of
        None \<Rightarrow> Some TypeError
      | Some (px, py, w, h) \<Rightarrow>
          (case map_option rgb565ToRgb888 (get_prop cell (jstr ''bg_color'') \<bind> parse_color) of
             None \<Rightarrow> Some TypeError
           | Some bgColor \<Rightarrow>
               (case map_option (\<lambda>n. rgb565ToRgb888 (int_operand (or_default n 0xFFFF)))
                       (get_prop cell (jstr ''font1_color'') \<bind> (\<lambda>v. parseInt v 16)) of
                  None \<Rightarrow> Some TypeError
                | Some fgColor \<Rightarrow>
                    (case (get_prop cell (jstr ''str_value''), get_prop cell (jstr ''value'')) of
                       (Some str_value, Some val) \<Rightarrow>
                         if \<not> nullish str_value then
                           (if truthy str_value \<and> num_less (Finite 0) w \<and> num_less (Finite 0) h
                               \<and> ToString str_value = None
                            then Some TypeError else None)
                         else if \<not> nullish val then
                           (case get_prop cell (jstr ''decimalPlaces'') \<bind> (\<lambda>v. parseInt v 10) of
                              None \<Rightarrow> Some TypeError
                            | Some n \<Rightarrow> toFixed val (or_default n 0))
                         else None
                     | _ \<Rightarrow> Some TypeError))))"

definition drawLiveCells :: "live_data_manager \<Rightarrow> js_error option" where
  "drawLiveCells s = forEach drawLiveCell (currentCells s)"

text \<open>\<open>calculateUpdateRate()\<close>. Timestamps are the integers \<open>Date.now()\<close> returns; the
  quotient is taken in the reals, without the rounding of double arithmetic.\<close>

definition calculateUpdateRate :: "live_data_manager \<Rightarrow> real" where
  "calculateUpdateRate s =
     (if length (updateRateWindow s) < 2 then 0
      else
        let timeSpan = updateRateWindow s ! (length (updateRateWindow s) - 1)
                         - updateRateWindow s ! 0;
            messageCount = int (length (updateRateWindow s)) - 1
        in if timeSpan = 0 then 0
           else (real_of_int messageCount / real_of_int timeSpan) * 1000)"

text \<open>The last lines of \<open>handleLiveData\<close>: push \<open>Date.now()\<close>, shift when the window
  is longer than its size.\<close>

definition track_update :: "int \<Rightarrow> live_data_manager \<Rightarrow> live_data_manager" where
  "track_update now s =
     (let s = s\<lparr>updateRateWindow := updateRateWindow s @ [now]\<rparr>
      in if length (updateRateWindow s) > updateRateWindowSize s
         then s\<lparr>updateRateWindow := tl (updateRateWindow s)\<rparr>
         else s)"

text \<open>\<open>handleLiveData(data)\<close>: the state it leaves and the exception it throws, if
  any. An exception leaves the assignments made before it in place. The statistics
  and the time label it writes to the page are not part of the state.\<close>

definition handleLiveData ::
  "jsval \<Rightarrow> int \<Rightarrow> live_data_manager \<Rightarrow> live_data_manager \<times> js_error option" where
  "handleLiveData data now s =
     (case get_prop data (jstr ''cells'') of
        None \<Rightarrow> (s, Some TypeError)
      | Some cells \<Rightarrow>
          if \<not> truthy cells \<or> \<not> isArray cells then (s, None)
          else
            (case js_filter (\<lambda>cell. map_option truthy (get_prop cell (jstr ''enabled'')))
                    (case cells of JArr vs \<Rightarrow> vs | _ \<Rightarrow> []) of
               None \<Rightarrow> (s, Some TypeError)
             | Some kept \<Rightarrow>
                 (let s = s\<lparr>currentCells := kept\<rparr>
                  in case drawLiveCells s of
                       Some e \<Rightarrow> (s, Some e)
                     | None \<Rightarrow> (track_update now s, None))))"

section \<open>The specification's wording\<close>

text \<open>Hit test: the point lies inside the cell's rectangle under inclusive bounds,
  \<open>px \<le> x \<le> px + w\<close> and \<open>py \<le> y \<le> py + h\<close>, the geometry being the one the code
  parses; a cell whose geometry cannot be parsed has no rectangle.\<close>

definition spec_inside :: "int \<Rightarrow> int \<Rightarrow> jsval \<Rightarrow> bool" where
  "spec_inside x y cell =
     (case cell_rect cell of
        None \<Rightarrow> False
      | Some (px, py, w, h) \<Rightarrow>
          num_le px (Finite x) \<and> num_le (Finite x) (num_add px w)
          \<and> num_le py (Finite y) \<and> num_le (Finite y) (num_add py h))"

text \<open>Update rate: \<open>(windowLength - 1) / (newestTimestamp - oldestTimestamp) * 1000\<close>,
  and 0 when the window has fewer than 2 samples or the time span is 0.\<close>

definition spec_rate :: "int list \<Rightarrow> real" where
  "spec_rate window =
     (if length window < 2 \<or> last window - hd window = 0 then 0
      else (real (length window) - 1) / real_of_int (last window - hd window) * 1000)"

text \<open>A cell whose \<open>enabled\<close> flag is truthy.\<close>

definition spec_enabled :: "jsval \<Rightarrow> bool" where
  "spec_enabled cell =
     (case get_prop cell (jstr ''enabled'') of None \<Rightarrow> False | Some v \<Rightarrow> truthy v)"

section \<open>Sample inputs\<close>

text \<open>A manager as the live page sets it up: both subscribers registered, the
  message subscriber returning normally.\<close>

definition sample_manager :: ws_manager where
  "sample_manager =
     onStatusChange (onMessage (\<lambda>data. None) (WebSocketManager ''http:'' ''192.168.4.1''))"

text \<open>The connection opened, the server dropped it (a reconnect is now scheduled),
  and then the user pressed Disconnect.\<close>

definition dropped_then_disconnected :: ws_manager where
  "dropped_then_disconnected =
     run [Call_connect None, Socket_opens 0, Socket_closes 0 1006, Call_disconnect]
       sample_manager"


text \<open>A decoder that accepts the text \<open>{}\<close> only.\<close>

definition parse_stub :: "string \<Rightarrow> string + jsval" where
  "parse_stub text = (if text = ''{}'' then Inr (JObj []) else Inl ''Unexpected token'')"

text \<open>Cells: one whose \<open>posx\<close> is an object with a property named \<open>toString\<close>, one
  with malformed and negative geometry texts, and two overlapping ones.\<close>

definition unreadable_cell :: jsval where
  "unreadable_cell =
     JObj [(jstr ''posx'', JObj [(jstr ''toString'', JNum (jstr ''1''))]),
           (jstr ''posy'', JNum (jstr ''0'')), (jstr ''sizex'', JNum (jstr ''100'')),
           (jstr ''sizey'', JNum (jstr ''50''))]"

definition odd_cell :: jsval where
  "odd_cell =
     JObj [(jstr ''posx'', JStr (jstr ''abc'')), (jstr ''posy'', JStr (jstr '' -5px'')),
           (jstr ''sizex'', JNum (jstr ''20.5''))]"

definition back_cell :: jsval where
  "back_cell =
     JObj [(jstr ''posx'', JNum (jstr ''0'')), (jstr ''posy'', JNum (jstr ''0'')),
           (jstr ''sizex'', JNum (jstr ''100'')), (jstr ''sizey'', JNum (jstr ''50''))]"

definition front_cell :: jsval where
  "front_cell =
     JObj [(jstr ''posx'', JStr (jstr ''50'')), (jstr ''posy'', JStr (jstr ''10'')),
           (jstr ''sizex'', JStr (jstr ''100'')), (jstr ''sizey'', JStr (jstr ''50''))]"

text \<open>A live message with three cells: \<open>enabled\<close> is the text \<open>false\<close>, the boolean
  \<open>false\<close>, and the boolean \<open>true\<close>.\<close>

definition text_false_message :: jsval where
  "text_false_message =
     JObj [(jstr ''cells'',
            JArr [JObj [(jstr ''enabled'', JStr (jstr ''false'')),
                        (jstr ''str_value'', JStr (jstr ''a''))],
                  JObj [(jstr ''enabled'', JBool False),
                        (jstr ''str_value'', JStr (jstr ''b''))],
                  JObj [(jstr ''enabled'', JBool True),
                        (jstr ''str_value'', JStr (jstr ''c''))]])]"

section \<open>Round trip of the pure primaries, white and black\<close>

lemmas js_bits = js_shl_def js_shr_def js_and_def js_or_def ToInt32_def

lemmas digits_eval = Number_toString_def nat_digits.simps digit_char_def

lemma bit_length_le: "n < 2 ^ k \<Longrightarrow> bit_length n \<le> k"
proof (induction k arbitrary: n)
  case 0
  then show ?case by (simp add: bit_length.simps)
next
  case (Suc k)
  show ?case
  proof (cases "n = 0")
    case True
    then show ?thesis by (simp add: bit_length.simps)
  next
    case False
    have "n div 2 < 2 ^ k" using Suc.prems by simp
    then have "bit_length (n div 2) \<le> k" by (rule Suc.IH)
    then show ?thesis using False by (subst bit_length.simps) simp
  qed
qed

lemma round_double_exact:
  assumes "\<bar>m\<bar> < 2 ^ 53"
  shows "round_double m = Finite m"
proof -
  have "nat \<bar>m\<bar> < 2 ^ 53" using assms by (simp add: nat_less_iff)
  then have e: "bit_length (nat \<bar>m\<bar>) - 53 = 0"
    using bit_length_le [of "nat \<bar>m\<bar>" 53] by simp
  have "(2::nat) ^ 53 \<le> 2 ^ 1024" by (rule power_increasing) simp_all
  with \<open>nat \<bar>m\<bar> < 2 ^ 53\<close> have b: "\<not> (2::nat) ^ 1024 \<le> nat \<bar>m\<bar>" by linarith
  have v: "(if m < 0 then - int (nat \<bar>m\<bar>) else int (nat \<bar>m\<bar>)) = m" by simp
  show ?thesis
    unfolding round_double_def Let_def e
    by (simp only: power_0 div_by_1 mod_by_1 mult_0_right mult_1_right b v if_False
        zero_less_one not_less_zero simp_thms zero_neq_one less_numeral_extra)
qed

lemmas parse_eval = parseInt_def parseInt_text_def is_ws_def digit_val_def jstr_def
  round_double_exact

lemma parse_ff: "parseInt_text [102, 102] 16 = Finite 255"
  by (simp add: parse_eval)

lemma parse_00: "parseInt_text [48, 48] 16 = Finite 0"
  by (simp add: parse_eval)

lemma hex_f800: "Number_toString 16 63488 = ''f800''"
  by (simp add: digits_eval)

lemma hex_7e0: "Number_toString 16 2016 = ''7e0''"
  by (simp add: digits_eval)

lemma hex_1f: "Number_toString 16 31 = ''1f''"
  by (simp add: digits_eval)

lemma hex_ffff: "Number_toString 16 65535 = ''ffff''"
  by (simp add: digits_eval)

lemma hex_0: "Number_toString 16 0 = ''0''"
  by (simp add: digits_eval)

lemma pad_f800: "padStart [102, 56, 48, 48] 4 48 = [102, 56, 48, 48]"
  by (simp add: padStart_def)

lemma pad_7e0: "padStart [55, 101, 48] 4 48 = [48, 55, 101, 48]"
  by (simp add: padStart_def)

lemma pad_1f: "padStart [49, 102] 4 48 = [48, 48, 49, 102]"
  by (simp add: padStart_def numeral_2_eq_2)

lemma pad_ffff: "padStart [102, 102, 102, 102] 4 48 = [102, 102, 102, 102]"
  by (simp add: padStart_def)

lemma pad_0: "padStart [48] 4 48 = [48, 48, 48, 48]"
  by (simp add: padStart_def numeral_3_eq_3)

lemmas hex_eval = hex_f800 hex_7e0 hex_1f hex_ffff hex_0 pad_f800 pad_7e0 pad_1f pad_ffff pad_0

lemmas enc_eval = rgb888ToRgb565_def Let_def substring_def jstr_def parse_ff parse_00
  int_operand_def js_bits hex_eval

lemma enc_red: "rgb888ToRgb565 (jstr ''#ff0000'') = jstr ''0xf800''"
  by (simp add: enc_eval)

lemma enc_green: "rgb888ToRgb565 (jstr ''#00ff00'') = jstr ''0x07e0''"
  by (simp add: enc_eval)

lemma enc_blue: "rgb888ToRgb565 (jstr ''#0000ff'') = jstr ''0x001f''"
  by (simp add: enc_eval)

lemma enc_white: "rgb888ToRgb565 (jstr ''#ffffff'') = jstr ''0xffff''"
  by (simp add: enc_eval)

lemma enc_black: "rgb888ToRgb565 (jstr ''#000000'') = jstr ''0x0000''"
  by (simp add: enc_eval)

lemma read_red: "parse_color (JStr (jstr ''0xf800'')) = Some 0xF800"
  by (simp add: parse_color_def parse_eval or_default_def int_operand_def)

lemma read_green: "parse_color (JStr (jstr ''0x07e0'')) = Some 0x07E0"
  by (simp add: parse_color_def parse_eval or_default_def int_operand_def)

lemma read_blue: "parse_color (JStr (jstr ''0x001f'')) = Some 0x001F"
  by (simp add: parse_color_def parse_eval or_default_def int_operand_def)

lemma read_white: "parse_color (JStr (jstr ''0xffff'')) = Some 0xFFFF"
  by (simp add: parse_color_def parse_eval or_default_def int_operand_def)

lemma read_black: "parse_color (JStr (jstr ''0x0000'')) = Some 0"
  by (simp add: parse_color_def parse_eval or_default_def int_operand_def)

lemma dec_red: "rgb565_channels 0xF800 = (255, 0, 0)"
  by (simp add: rgb565_channels_def js_bits)

lemma dec_green: "rgb565_channels 0x07E0 = (0, 255, 0)"
  by (simp add: rgb565_channels_def js_bits)

lemma dec_blue: "rgb565_channels 0x001F = (0, 0, 255)"
  by (simp add: rgb565_channels_def js_bits)

lemma dec_white: "rgb565_channels 0xFFFF = (255, 255, 255)"
  by (simp add: rgb565_channels_def js_bits)

lemma dec_black: "rgb565_channels 0 = (0, 0, 0)"
  by (simp add: rgb565_channels_def js_bits)

lemma pack_red: "rgb565ToRgb888 0xF800 = 0xFF0000"
  by (simp add: rgb565ToRgb888_def dec_red js_bits)

lemma pack_green: "rgb565ToRgb888 0x07E0 = 0x00FF00"
  by (simp add: rgb565ToRgb888_def dec_green js_bits)

lemma pack_blue: "rgb565ToRgb888 0x001F = 0x0000FF"
  by (simp add: rgb565ToRgb888_def dec_blue js_bits)

lemma pack_white: "rgb565ToRgb888 0xFFFF = 0xFFFFFF"
  by (simp add: rgb565ToRgb888_def dec_white js_bits)

lemma pack_black: "rgb565ToRgb888 0 = 0"
  by (simp add: rgb565ToRgb888_def dec_black js_bits)

text \<open>
  Claim C2. For red, green, blue, white and black, encoding the hex text with
  \<open>rgb888ToRgb565\<close>, reading the resulting \<open>0x....\<close> text back as the renderers do and
  decoding it with \<open>rgb565ToRgb888\<close> gives the original three channels, and the packed
  24-bit value of the original colour.
\<close>

theorem primaries_roundtrip:
  "map_option rgb565_channels (parse_color (JStr (rgb888ToRgb565 (jstr ''#ff0000''))))
     = Some (255, 0, 0)
   \<and> map_option rgb565_channels (parse_color (JStr (rgb888ToRgb565 (jstr ''#00ff00''))))
     = Some (0, 255, 0)
   \<and> map_option rgb565_channels (parse_color (JStr (rgb888ToRgb565 (jstr ''#0000ff''))))
     = Some (0, 0, 255)
   \<and> map_option rgb565_channels (parse_color (JStr (rgb888ToRgb565 (jstr ''#ffffff''))))
     = Some (255, 255, 255)
   \<and> map_option rgb565_channels (parse_color (JStr (rgb888ToRgb565 (jstr ''#000000''))))
     = Some (0, 0, 0)
   \<and> map_option rgb565ToRgb888 (parse_color (JStr (rgb888ToRgb565 (jstr ''#ff0000''))))
     = Some 0xFF0000
   \<and> map_option rgb565ToRgb888 (parse_color (JStr (rgb888ToRgb565 (jstr ''#00ff00''))))
     = Some 0x00FF00
   \<and> map_option rgb565ToRgb888 (parse_color (JStr (rgb888ToRgb565 (jstr ''#0000ff''))))
     = Some 0x0000FF
   \<and> map_option rgb565ToRgb888 (parse_color (JStr (rgb888ToRgb565 (jstr ''#ffffff''))))
     = Some 0xFFFFFF
   \<and> map_option rgb565ToRgb888 (parse_color (JStr (rgb888ToRgb565 (jstr ''#000000''))))
     = Some 0"
  by (simp only: enc_red enc_green enc_blue enc_white enc_black
      read_red read_green read_blue read_white read_black option.map
      dec_red dec_green dec_blue dec_white dec_black
      pack_red pack_green pack_blue pack_white pack_black simp_thms)

section \<open>Range of the decoder\<close>

lemma ToInt32_id: "- (2 ^ 31) \<le> n \<Longrightarrow> n < 2 ^ 31 \<Longrightarrow> ToInt32 n = n"
  unfolding ToInt32_def by (rule signed_take_bit_int_eq_self) simp_all

lemma ToInt32_small: "0 \<le> n \<Longrightarrow> n < 2 ^ 24 \<Longrightarrow> ToInt32 n = n"
  by (rule ToInt32_id) simp_all

lemma js_and_mask_range:
  assumes "0 \<le> m" "m < 2 ^ 31"
  shows "0 \<le> js_and a m \<and> js_and a m \<le> m"
proof -
  have m: "ToInt32 m = m" using assms by (simp add: ToInt32_id)
  have "0 \<le> ToInt32 a AND m" using assms(1) by simp
  moreover have "ToInt32 a AND m \<le> m" using assms(1) by (rule AND_upper2)
  ultimately show ?thesis by (simp add: js_and_def m)
qed

lemma js_shl_small:
  assumes "0 \<le> a" "a * 2 ^ k < 2 ^ 31" "k < 32"
  shows "js_shl a k = a * 2 ^ k"
proof -
  have "a \<le> a * 2 ^ k" using assms(1) by (simp add: mult_le_cancel_left1)
  then have a: "ToInt32 a = a" using assms by (simp add: ToInt32_id)
  have "0 \<le> a * 2 ^ k" using assms(1) by simp
  then have "ToInt32 (a * 2 ^ k) = a * 2 ^ k" using assms(2) by (simp add: ToInt32_id)
  then show ?thesis using assms(3) by (simp add: js_shl_def a push_bit_eq_mult)
qed

lemma js_shr_small:
  assumes "0 \<le> a" "a < 2 ^ 31" "k < 32"
  shows "js_shr a k = a div 2 ^ k"
  using assms by (simp add: js_shr_def ToInt32_id drop_bit_eq_div)

lemma expand5_range:
  assumes "0 \<le> m" "m \<le> 31"
  shows "0 \<le> js_shl m 3 + js_shr (js_shl m 3) 5 \<and> js_shl m 3 + js_shr (js_shl m 3) 5 \<le> 255"
proof -
  have s: "js_shl m 3 = m * 8" using js_shl_small [of m 3] assms by simp
  have "js_shr (m * 8) 5 = (m * 8) div 32" using js_shr_small [of "m * 8" 5] assms by simp
  then show ?thesis using assms by (simp add: s)
qed

lemma expand6_range:
  assumes "0 \<le> m" "m \<le> 63"
  shows "0 \<le> js_shl m 2 + js_shr (js_shl m 2) 6 \<and> js_shl m 2 + js_shr (js_shl m 2) 6 \<le> 255"
proof -
  have s: "js_shl m 2 = m * 4" using js_shl_small [of m 2] assms by simp
  have "js_shr (m * 4) 6 = (m * 4) div 64" using js_shr_small [of "m * 4" 6] assms by simp
  then show ?thesis using assms by (simp add: s)
qed

lemma rgb565_channels_range:
  "case rgb565_channels v of (r, g, b) \<Rightarrow>
     0 \<le> r \<and> r \<le> 255 \<and> 0 \<le> g \<and> g \<le> 255 \<and> 0 \<le> b \<and> b \<le> 255"
proof -
  have r: "0 \<le> js_and (js_shr v 11) 0x1F \<and> js_and (js_shr v 11) 0x1F \<le> 31"
    using js_and_mask_range [of 31 "js_shr v 11"] by simp
  have g: "0 \<le> js_and (js_shr v 5) 0x3F \<and> js_and (js_shr v 5) 0x3F \<le> 63"
    using js_and_mask_range [of 63 "js_shr v 5"] by simp
  have b: "0 \<le> js_and v 0x1F \<and> js_and v 0x1F \<le> 31"
    using js_and_mask_range [of 31 v] by simp
  show ?thesis
    using expand5_range [of "js_and (js_shr v 11) 0x1F"]
      expand6_range [of "js_and (js_shr v 5) 0x3F"]
      expand5_range [of "js_and v 0x1F"] r g b
    by (simp add: rgb565_channels_def Let_def)
qed

lemma pack_range:
  assumes "0 \<le> r" "r \<le> 255" "0 \<le> g" "g \<le> 255" "0 \<le> b" "b \<le> 255"
  shows "0 \<le> js_or (js_or (js_shl r 16) (js_shl g 8)) b
         \<and> js_or (js_or (js_shl r 16) (js_shl g 8)) b < 2 ^ 24"
proof -
  have r: "js_shl r 16 = r * 2 ^ 16" using js_shl_small [of r 16] assms by simp
  have g: "js_shl g 8 = g * 2 ^ 8" using js_shl_small [of g 8] assms by simp
  have r0: "0 \<le> r * 2 ^ 16" "r * 2 ^ 16 < 2 ^ 24" using assms by simp_all
  have g0: "0 \<le> g * 2 ^ 8" "g * 2 ^ 8 < 2 ^ 24" using assms by simp_all
  have b0: "b < 2 ^ 24" using assms by simp
  have Tr: "ToInt32 (r * 2 ^ 16) = r * 2 ^ 16" using r0 by (simp add: ToInt32_id)
  have Tg: "ToInt32 (g * 2 ^ 8) = g * 2 ^ 8" using g0 by (simp add: ToInt32_id)
  have Tb: "ToInt32 b = b" using assms by (simp add: ToInt32_id)
  have rg1: "r * 2 ^ 16 OR g * 2 ^ 8 < 2 ^ 24"
    by (rule OR_upper [OF r0(1) r0(2) g0(2)])
  have rg0: "0 \<le> r * 2 ^ 16 OR g * 2 ^ 8"
    using r0(1) g0(1) by (simp only: or_nonnegative_int_iff)
  have Trg: "ToInt32 (r * 2 ^ 16 OR g * 2 ^ 8) = r * 2 ^ 16 OR g * 2 ^ 8"
    by (rule ToInt32_small [OF rg0 rg1])
  have lo: "0 \<le> (r * 2 ^ 16 OR g * 2 ^ 8) OR b"
    using rg0 assms(5) by (simp only: or_nonnegative_int_iff)
  have hi: "(r * 2 ^ 16 OR g * 2 ^ 8) OR b < 2 ^ 24"
    by (rule OR_upper [OF rg0 rg1 b0])
  have "js_or (js_or (js_shl r 16) (js_shl g 8)) b = (r * 2 ^ 16 OR g * 2 ^ 8) OR b"
    by (simp only: js_or_def r g Tr Tg Tb Trg)
  then show ?thesis using lo hi by (simp only:)
qed

text \<open>
  Claim C10. For every input in 0..65535 the three channels \<open>rgb565ToRgb888\<close> computes
  are each in 0..255 (the rounding step never carries a channel past 255), and the
  packed result is a non-negative value below \<open>2 ^ 24\<close>.
\<close>

theorem rgb565ToRgb888_range:
  assumes "0 \<le> v" "v \<le> 65535"
  shows "(case rgb565_channels v of (r, g, b) \<Rightarrow>
            0 \<le> r \<and> r \<le> 255 \<and> 0 \<le> g \<and> g \<le> 255 \<and> 0 \<le> b \<and> b \<le> 255)
         \<and> 0 \<le> rgb565ToRgb888 v \<and> rgb565ToRgb888 v < 2 ^ 24"
proof -
  obtain r g b where c: "rgb565_channels v = (r, g, b)" by (cases "rgb565_channels v")
  have rng: "0 \<le> r \<and> r \<le> 255 \<and> 0 \<le> g \<and> g \<le> 255 \<and> 0 \<le> b \<and> b \<le> 255"
    using rgb565_channels_range [of v] by (simp add: c)
  then show ?thesis using pack_range [of r g b] by (simp add: c rgb565ToRgb888_def)
qed

theorem rgb565ToRgb888_range_witness:
  "(0::int) \<le> 65535 \<and> (65535::int) \<le> 65535
   \<and> (case rgb565_channels 65535 of (r, g, b) \<Rightarrow>
         0 \<le> r \<and> r \<le> 255 \<and> 0 \<le> g \<and> g \<le> 255 \<and> 0 \<le> b \<and> b \<le> 255)
   \<and> 0 \<le> rgb565ToRgb888 65535 \<and> rgb565ToRgb888 65535 < 2 ^ 24"
proof -
  have lo: "(0::int) \<le> 65535" and hi: "(65535::int) \<le> 65535" by simp_all
  show ?thesis using lo hi rgb565ToRgb888_range [OF lo hi] by simp
qed

section \<open>Hit testing\<close>

lemmas cell_eval = cell_rect_def geom_field_def parse_eval or_default_def

lemma sample_rects:
  "cell_rect back_cell = Some (Finite 0, Finite 0, Finite 100, Finite 50)"
  "cell_rect front_cell = Some (Finite 50, Finite 10, Finite 100, Finite 50)"
  "cell_rect unreadable_cell = None"
  "cell_rect JNull = None"
  by (simp_all add: back_cell_def front_cell_def unreadable_cell_def cell_eval)

lemma sample_inside:
  "spec_inside 60 20 back_cell" "spec_inside 60 20 front_cell"
  "\<not> spec_inside 120 55 back_cell" "spec_inside 120 55 front_cell"
  "\<not> spec_inside 200 200 back_cell" "\<not> spec_inside 200 200 front_cell"
  by (simp_all add: spec_inside_def sample_rects round_double_exact)

lemma findIndex_from_scan:
  "(findIndex_from p cs i = Some (- 1) \<and> (\<forall>k<length cs. p (cs ! k) = Some False))
   \<or> (\<exists>k<length cs. findIndex_from p cs i = Some (i + int k) \<and> p (cs ! k) = Some True
         \<and> (\<forall>j<k. p (cs ! j) = Some False))
   \<or> (\<exists>k<length cs. findIndex_from p cs i = None \<and> p (cs ! k) = None
         \<and> (\<forall>j<k. p (cs ! j) = Some False))"
proof (induction cs arbitrary: i)
  case Nil
  then show ?case by simp
next
  case (Cons c cs)
  show ?case
  proof (cases "p c")
    case None
    then have "findIndex_from p (c # cs) i = None" by simp
    then show ?thesis using None by (intro disjI2 exI [of _ 0]) simp
  next
    case (Some b)
    show ?thesis
    proof (cases b)
      case True
      then have "findIndex_from p (c # cs) i = Some (i + int 0)" using Some by simp
      then show ?thesis using Some True by (intro disjI2 disjI1 exI [of _ 0]) simp
    next
      case False
      have pc: "p c = Some False" using Some False by simp
      have step: "findIndex_from p (c # cs) i = findIndex_from p cs (i + 1)"
        using pc by simp
      have shift: "\<forall>j<Suc k. p ((c # cs) ! j) = Some False"
        if "\<forall>j<k. p (cs ! j) = Some False" for k
        using that pc by (auto simp: nth_Cons split: nat.splits)
      from Cons.IH [of "i + 1"]
      consider (none) "findIndex_from p cs (i + 1) = Some (- 1)"
          "\<forall>k<length cs. p (cs ! k) = Some False"
        | (hit) k where "k < length cs" "findIndex_from p cs (i + 1) = Some (i + 1 + int k)"
            "p (cs ! k) = Some True" "\<forall>j<k. p (cs ! j) = Some False"
        | (throw) k where "k < length cs" "findIndex_from p cs (i + 1) = None"
            "p (cs ! k) = None" "\<forall>j<k. p (cs ! j) = Some False"
        by blast
      then show ?thesis
      proof cases
        case none
        have "\<forall>k<length (c # cs). p ((c # cs) ! k) = Some False"
          using shift [OF none(2)] by simp
        then show ?thesis using none(1) step by simp
      next
        case hit
        have "findIndex_from p (c # cs) i = Some (i + int (Suc k))" using hit(2) step by simp
        then show ?thesis using hit(1,3) shift [OF hit(4)]
          by (intro disjI2 disjI1 exI [of _ "Suc k"]) simp
      next
        case throw
        have "findIndex_from p (c # cs) i = None" using throw(2) step by simp
        then show ?thesis using throw(1,3) shift [OF throw(4)]
          by (intro disjI2 exI [of _ "Suc k"]) simp
      qed
    qed
  qed
qed

lemma hit_callback:
  "do { (px, py, w, h) \<leftarrow> cell_rect c;
        Some (num_ge (Finite x) px \<and> num_le (Finite x) (num_add px w)
              \<and> num_ge (Finite y) py \<and> num_le (Finite y) (num_add py h)) }
   = (if cell_rect c = None then None else Some (spec_inside x y c))"
  by (cases "cell_rect c") (auto simp: spec_inside_def num_ge_def)

text \<open>
  Claim C5 as stated does not hold for every list of cells: when a cell whose \<open>posx\<close>
  is an object with a property named \<open>toString\<close> stands before a cell that contains the
  point, \<open>parseInt\<close> throws a TypeError in the callback and \<open>findCellAtPosition\<close>
  returns neither an index nor \<open>-1\<close>.
\<close>

theorem unreadable_cell_throws:
  "spec_inside 60 20 back_cell
   \<and> findCellAtPosition 60 20 [unreadable_cell, back_cell] = None"
  by (simp add: sample_inside findCellAtPosition_def findIndex_def sample_rects)

text \<open>
  Claim C5, amended. For every point and every list of cells, \<open>findCellAtPosition\<close>
  scans the cells in index order. It returns \<open>-1\<close> when the geometry of every cell
  parses and no rectangle contains the point under inclusive bounds; it returns the
  smallest index whose rectangle contains the point when the geometry of every earlier
  cell parses, whatever cells come later; and it throws a TypeError when a cell
  whose geometry cannot be parsed (a \<open>null\<close> or \<open>undefined\<close> entry, or a field that
  cannot be converted to text) comes before any cell that contains the point.
\<close>

theorem findCellAtPosition_scan:
  "(findCellAtPosition x y cells = Some (- 1)
      \<and> (\<forall>k<length cells. cell_rect (cells ! k) \<noteq> None \<and> \<not> spec_inside x y (cells ! k)))
   \<or> (\<exists>k<length cells. findCellAtPosition x y cells = Some (int k)
         \<and> spec_inside x y (cells ! k)
         \<and> (\<forall>j<k. cell_rect (cells ! j) \<noteq> None \<and> \<not> spec_inside x y (cells ! j)))
   \<or> (\<exists>k<length cells. findCellAtPosition x y cells = None
         \<and> cell_rect (cells ! k) = None
         \<and> (\<forall>j<k. cell_rect (cells ! j) \<noteq> None \<and> \<not> spec_inside x y (cells ! j)))"
proof -
  let ?p = "\<lambda>c. if cell_rect c = None then None else Some (spec_inside x y c)"
  have f: "findCellAtPosition x y cells = findIndex_from ?p cells 0"
    by (simp add: findCellAtPosition_def findIndex_def hit_callback)
  have F: "?p c = Some False \<longleftrightarrow> cell_rect c \<noteq> None \<and> \<not> spec_inside x y c" for c by simp
  have T: "?p c = Some True \<longleftrightarrow> cell_rect c \<noteq> None \<and> spec_inside x y c" for c by simp
  have N: "?p c = None \<longleftrightarrow> cell_rect c = None" for c by simp
  from findIndex_from_scan [of ?p cells 0]
  show ?thesis unfolding f F T N by auto
qed

theorem findCellAtPosition_scan_witness:
  "findCellAtPosition 60 20 [back_cell, front_cell] = Some 0
   \<and> spec_inside 60 20 back_cell \<and> spec_inside 60 20 front_cell"
proof -
  have r: "cell_rect ([back_cell, front_cell] ! k) \<noteq> None" if "k < length [back_cell, front_cell]" for k
    using that by (cases k) (simp_all add: sample_rects)
  from findCellAtPosition_scan [of 60 20 "[back_cell, front_cell]"]
  consider (none) "\<forall>k<length [back_cell, front_cell].
                     \<not> spec_inside 60 20 ([back_cell, front_cell] ! k)"
    | (hit) k where "k < length [back_cell, front_cell]"
        "findCellAtPosition 60 20 [back_cell, front_cell] = Some (int k)"
        "\<forall>j<k. \<not> spec_inside 60 20 ([back_cell, front_cell] ! j)"
    | (throw) k where "k < length [back_cell, front_cell]"
        "cell_rect ([back_cell, front_cell] ! k) = None"
    by blast
  then have "findCellAtPosition 60 20 [back_cell, front_cell] = Some 0"
  proof cases
    case none
    have "0 < length [back_cell, front_cell]" by simp
    with none have "\<not> spec_inside 60 20 ([back_cell, front_cell] ! 0)" by blast
    then show ?thesis using sample_inside(1) by simp
  next
    case hit
    have "k = 0"
    proof (rule ccontr)
      assume "k \<noteq> 0"
      then have "0 < k" by simp
      with hit(3) have "\<not> spec_inside 60 20 ([back_cell, front_cell] ! 0)" by blast
      then show False using sample_inside(1) by simp
    qed
    then show ?thesis using hit(2) by simp
  next
    case throw
    then show ?thesis using r by blast
  qed
  then show ?thesis using sample_inside by simp
qed

section \<open>Cell geometry\<close>

text \<open>What \<open>parseInt\<close> makes of some unusual fields: an integer beyond \<open>2 ^ 53\<close> is
  rounded, the number \<open>1e21\<close> reads as 1, a no-break space is skipped, an object with
  a property named \<open>toString\<close> throws, an array prints its elements.\<close>

lemma bit_length_2_53: "bit_length 9007199254740993 = 54"
  by (simp add: bit_length.simps)

lemma round_double_2_53: "round_double 9007199254740993 = Finite 9007199254740992"
  by (simp add: round_double_def bit_length_2_53 Let_def)

lemma parseInt_examples:
  "parseInt (JStr (jstr ''9007199254740993'')) 10 = Some (Finite 9007199254740992)"
  "parseInt (JNum (jstr ''1e+21'')) 10 = Some (Finite 1)"
  "parseInt (JStr [0xA0, 45, 53]) 10 = Some (Finite (- 5))"
  "parseInt (JObj [(jstr ''toString'', JNum (jstr ''1''))]) 10 = None"
  "parseInt (JArr [JStr (jstr ''7''), JNull]) 10 = Some (Finite 7)"
  by (simp add: parseInt_def parseInt_text_def is_ws_def digit_val_def jstr_def
      round_double_2_53 Let_def)
    (simp_all add: parseInt_def parseInt_text_def is_ws_def digit_val_def jstr_def
      round_double_exact Let_def)

lemma parseInt_text_not_negative:
  assumes "take 1 (dropWhile is_ws t) \<noteq> jstr ''-''"
  shows "\<not> num_less (parseInt_text t radix) (Finite 0)"
proof -
  have gen: "\<not> num_less (if c then Infinity else Finite (int v)) (Finite 0)" for c v
    by simp
  have nn: "\<not> num_less (round_double (int m)) (Finite 0)" for m
  proof -
    have neg: "(int m < 0) = False" by simp
    show ?thesis
      unfolding round_double_def Let_def by (simp only: neg if_False) (rule gen)
  qed
  show ?thesis using assms nn
    by (simp add: parseInt_text_def Let_def split: option.splits)
qed

lemma or_default_not_NaN: "or_default n d \<noteq> NaN"
  by (simp add: or_default_def)

lemma or_default_negative:
  "num_less (or_default n 0) (Finite 0) \<Longrightarrow> num_less n (Finite 0)"
  by (auto simp: or_default_def split: if_splits)

lemma geom_field_Some:
  assumes "get_prop cell k = Some v" "ToString v = Some t"
  shows "geom_field cell k = Some (or_default (parseInt_text t 10) 0)"
  using assms by (simp add: geom_field_def parseInt_def)

lemma geom_field_None:
  "geom_field cell k = None
   \<longleftrightarrow> nullish cell \<or> (\<exists>v. get_prop cell k = Some v \<and> ToString v = None)"
  by (cases cell) (auto simp: geom_field_def parseInt_def Option.bind_eq_None_conv)

lemma cell_rect_None:
  "cell_rect cell = None
   \<longleftrightarrow> geom_field cell (jstr ''posx'') = None \<or> geom_field cell (jstr ''posy'') = None
       \<or> geom_field cell (jstr ''sizex'') = None \<or> geom_field cell (jstr ''sizey'') = None"
  by (auto simp: cell_rect_def Option.bind_eq_None_conv)

lemma odd_cell_fields:
  "geom_field odd_cell (jstr ''posx'') = Some (Finite 0)"
  "geom_field odd_cell (jstr ''posy'') = Some (Finite (- 5))"
  "geom_field odd_cell (jstr ''sizex'') = Some (Finite 20)"
  "geom_field odd_cell (jstr ''sizey'') = Some (Finite 0)"
  by (simp_all add: odd_cell_def cell_eval)

text \<open>
  Claim C7 as stated does not hold: a cell whose \<open>posy\<close> is the text \<open>-5px\<close> (after a
  blank) parses to the negative coordinate \<open>-5\<close>; only NaN and 0 are replaced by the
  default.
\<close>

theorem negative_geometry_kept:
  "geom_field odd_cell (jstr ''posy'') = Some (Finite (- 5))
   \<and> cell_rect odd_cell = Some (Finite 0, Finite (- 5), Finite 20, Finite 0)
   \<and> num_less (Finite (- 5)) (Finite 0)"
  by (simp add: odd_cell_fields cell_rect_def)

text \<open>
  Claim C7, amended. Parsing a geometry field (\<open>posx\<close>, \<open>posy\<close>, \<open>sizex\<close> or
  \<open>sizey\<close>) throws (a TypeError) exactly when the
  cell is \<open>null\<close> or \<open>undefined\<close> or the field holds a value that cannot be converted
  to text, and parsing the four fields throws exactly when one of them does. In every
  other case the field parses to a Number that is never NaN: it is 0 when \<open>parseInt\<close>
  finds no digits in the text of the field, and it is negative only when that text
  starts, after white space, with a minus sign, so a negative input stays negative.
  A field that holds a string, malformed or not, never throws.
\<close>

theorem geometry_parse:
  assumes "k \<in> set geometry_keys"
  shows "(geom_field cell k = None
      \<longleftrightarrow> nullish cell \<or> (\<exists>v. get_prop cell k = Some v \<and> ToString v = None))
   \<and> (cell_rect cell = None
      \<longleftrightarrow> geom_field cell (jstr ''posx'') = None \<or> geom_field cell (jstr ''posy'') = None
          \<or> geom_field cell (jstr ''sizex'') = None \<or> geom_field cell (jstr ''sizey'') = None)
   \<and> (\<forall>v t. get_prop cell k = Some v \<and> ToString v = Some t \<longrightarrow>
         (\<exists>n. geom_field cell k = Some n \<and> n \<noteq> NaN
              \<and> (parseInt_text t 10 = NaN \<longrightarrow> n = Finite 0)
              \<and> (num_less n (Finite 0) \<longrightarrow> take 1 (dropWhile is_ws t) = jstr ''-'')))
   \<and> (\<forall>s. get_prop cell k = Some (JStr s) \<longrightarrow> geom_field cell k \<noteq> None)"
proof (intro conjI allI impI)
  show "geom_field cell k = None
      \<longleftrightarrow> nullish cell \<or> (\<exists>v. get_prop cell k = Some v \<and> ToString v = None)"
    by (rule geom_field_None)
  show "cell_rect cell = None
      \<longleftrightarrow> geom_field cell (jstr ''posx'') = None \<or> geom_field cell (jstr ''posy'') = None
          \<or> geom_field cell (jstr ''sizex'') = None \<or> geom_field cell (jstr ''sizey'') = None"
    by (rule cell_rect_None)
next
  fix v t
  assume a: "get_prop cell k = Some v \<and> ToString v = Some t"
  let ?n = "or_default (parseInt_text t 10) 0"
  have g: "geom_field cell k = Some ?n" using a by (simp add: geom_field_Some)
  have z: "parseInt_text t 10 = NaN \<longrightarrow> ?n = Finite 0" by (simp add: or_default_def)
  have m: "num_less ?n (Finite 0) \<longrightarrow> take 1 (dropWhile is_ws t) = jstr ''-''"
    using or_default_negative [of "parseInt_text t 10"] parseInt_text_not_negative [of t 10]
    by blast
  show "\<exists>n. geom_field cell k = Some n \<and> n \<noteq> NaN
              \<and> (parseInt_text t 10 = NaN \<longrightarrow> n = Finite 0)
              \<and> (num_less n (Finite 0) \<longrightarrow> take 1 (dropWhile is_ws t) = jstr ''-'')"
    using g z m or_default_not_NaN [of "parseInt_text t 10" 0] by (intro exI [of _ ?n]) simp
next
  fix s
  assume "get_prop cell k = Some (JStr s)"
  then show "geom_field cell k \<noteq> None" by (simp add: geom_field_def parseInt_def)
qed

theorem geometry_parse_witness:
  "jstr ''posx'' \<in> set geometry_keys
   \<and> get_prop odd_cell (jstr ''posx'') = Some (JStr (jstr ''abc''))
   \<and> ToString (JStr (jstr ''abc'')) = Some (jstr ''abc'')
   \<and> parseInt_text (jstr ''abc'') 10 = NaN
   \<and> geom_field odd_cell (jstr ''posx'') = Some (Finite 0)
   \<and> geom_field unreadable_cell (jstr ''posx'') = None
   \<and> cell_rect unreadable_cell = None"
proof -
  have g: "get_prop odd_cell (jstr ''posx'') = Some (JStr (jstr ''abc''))"
    by (simp add: odd_cell_def jstr_def)
  have t: "ToString (JStr (jstr ''abc'')) = Some (jstr ''abc'')" by simp
  have p: "parseInt_text (jstr ''abc'') 10 = NaN" by (simp add: parse_eval)
  have u: "get_prop unreadable_cell (jstr ''posx'')
             = Some (JObj [(jstr ''toString'', JNum (jstr ''1''))])"
    "ToString (JObj [(jstr ''toString'', JNum (jstr ''1''))]) = None"
    by (simp_all add: unreadable_cell_def jstr_def)
  have k: "jstr ''posx'' \<in> set geometry_keys" by (simp add: geometry_keys_def)
  from geometry_parse [OF k, of odd_cell] g t p
  have a: "geom_field odd_cell (jstr ''posx'') = Some (Finite 0)" by auto
  from geometry_parse [OF k, of unreadable_cell] u
  have b: "geom_field unreadable_cell (jstr ''posx'') = None" "cell_rect unreadable_cell = None"
    by auto
  show ?thesis using k g t p a b by simp
qed

section \<open>Reconnection\<close>

lemmas ws_eval = sample_manager_def onStatusChange_def onMessage_def WebSocketManager_def
  connect_def ws_is_open_def updateStatus_def socket_opens_def socket_closes_def
  ws_onopen_def ws_onclose_def disconnect_def socket_close_def reconnect_timer_fires_def



lemma updateStatus_current:
  "statusCallback s \<Longrightarrow> current_status (updateStatus st m s) = Some st"
  by (simp add: updateStatus_def current_status_def)
















subsection \<open>One attempt at a time\<close>










subsection \<open>Nothing happens by itself once every socket is closed and no timer is pending\<close>








section \<open>Disconnecting while a reconnect is pending\<close>

lemma dropped_then_disconnected_fields:
  "ws dropped_then_disconnected = None"
  "reconnectAttempts dropped_then_disconnected = 5"
  "shouldReconnect dropped_then_disconnected = False"
  "statusCallback dropped_then_disconnected = True"
  "sockets dropped_then_disconnected = [CLOSED]"
  "timers dropped_then_disconnected = [2000]"
  "status_log dropped_then_disconnected =
     [(Connecting, ''Connecting to ws://192.168.4.1/ws...''),
      (Connected, ''Connected - Waiting for data...''),
      (Disconnected, ''Disconnected (Code: 1006)''),
      (Disconnected, ''Manually disconnected'')]"
  "location_protocol dropped_then_disconnected = ''http:''"
  "location_host dropped_then_disconnected = ''192.168.4.1''"
  by (simp_all add: dropped_then_disconnected_def ws_eval digits_eval)

text \<open>
  Claim C1 fails on the code. The connection opened and was dropped by the server, so
  a reconnect is scheduled; \<open>disconnect()\<close> then sets the flag and the counter and
  reports disconnected, but the timer stays pending. When it fires, its callback calls
  \<open>connect()\<close>, which looks at neither the flag nor the counter: the state becomes
  connecting, a second socket is created, the flag is set again, and once that socket
  opens the state is connected.
\<close>

theorem disconnect_leaves_timer_armed:
  "current_status dropped_then_disconnected = Some Disconnected
   \<and> shouldReconnect dropped_then_disconnected = False
   \<and> reconnectAttempts dropped_then_disconnected = 5
   \<and> timers dropped_then_disconnected = [2000]
   \<and> current_status (reconnect_timer_fires None dropped_then_disconnected) = Some Connecting
   \<and> shouldReconnect (reconnect_timer_fires None dropped_then_disconnected)
   \<and> sockets (reconnect_timer_fires None dropped_then_disconnected) = [CLOSED, CONNECTING]
   \<and> current_status (socket_opens 1 (reconnect_timer_fires None dropped_then_disconnected))
       = Some Connected"
  by (simp add: dropped_then_disconnected_fields current_status_def reconnect_timer_fires_def
      connect_def ws_is_open_def updateStatus_def socket_opens_def ws_onopen_def)

section \<open>Calling connect twice\<close>

text \<open>
  Claim C4 as stated does not hold in the connecting state: the guard of \<open>connect\<close>
  tests for an open socket only, so a second call made before the socket has opened
  creates a second socket and moves the reference to it.
\<close>

theorem connect_while_connecting_opens_second:
  "current_status (connect None sample_manager) = Some Connecting
   \<and> sockets (connect None sample_manager) = [CONNECTING]
   \<and> ws (connect None sample_manager) = Some 0
   \<and> sockets (connect None (connect None sample_manager)) = [CONNECTING, CONNECTING]
   \<and> ws (connect None (connect None sample_manager)) = Some 1
   \<and> connect None (connect None sample_manager) \<noteq> connect None sample_manager"
proof -
  have a: "sockets (connect None (connect None sample_manager)) = [CONNECTING, CONNECTING]"
    by (simp add: ws_eval)
  have b: "sockets (connect None sample_manager) = [CONNECTING]"
    by (simp add: ws_eval)
  have c: "connect None (connect None sample_manager) \<noteq> connect None sample_manager"
    using a b by auto
  have d: "current_status (connect None sample_manager) = Some Connecting"
    "ws (connect None sample_manager) = Some 0"
    by (simp_all add: ws_eval current_status_def)
  have e: "ws (connect None (connect None sample_manager)) = Some 1"
    by (simp add: ws_eval)
  show ?thesis using a b c d e by simp
qed

text \<open>
  Claim C4, amended. Calling \<open>connect()\<close> while the manager's socket is open (the
  connected state) is a no-op: the socket, the connection state, the reconnect flag,
  the attempt counter and everything else stay as they are, and no second socket is
  created.
\<close>

theorem connect_while_open_noop:
  assumes "ws_is_open s"
  shows "connect ctor_error s = s"
  using assms by (simp add: connect_def)

theorem connect_while_open_noop_witness:
  "ws_is_open (socket_opens 0 (connect None sample_manager))
   \<and> current_status (socket_opens 0 (connect None sample_manager)) = Some Connected
   \<and> connect None (socket_opens 0 (connect None sample_manager))
       = socket_opens 0 (connect None sample_manager)"
proof -
  have h: "ws_is_open (socket_opens 0 (connect None sample_manager))"
    by (simp add: ws_eval)
  have c: "current_status (socket_opens 0 (connect None sample_manager)) = Some Connected"
    by (simp add: ws_eval current_status_def)
  show ?thesis using h c connect_while_open_noop [OF h, of None] by simp
qed

section \<open>Inbound messages\<close>

text \<open>
  Claim C9 as stated does not hold: the handler counts the message and records its
  arrival time before it tries to decode it, so a message that fails to decode is
  counted as well.
\<close>

theorem onmessage_counts_undecodable:
  "parse_stub ''oops'' = Inl ''Unexpected token''
   \<and> messageCount (socket_opens 0 (connect None sample_manager)) = 0
   \<and> messageCount (ws_onmessage parse_stub ''oops'' 1000
        (socket_opens 0 (connect None sample_manager))) = 1
   \<and> lastMessageTime (ws_onmessage parse_stub ''oops'' 1000
        (socket_opens 0 (connect None sample_manager))) = Some 1000"
  by (simp add: parse_stub_def ws_onmessage_def ws_eval)

text \<open>
  Claim C9, amended. On every inbound message the counter is incremented and the
  arrival time recorded, whether or not the message decodes; no socket is closed.
  When decoding succeeds the payload is handed to the registered subscriber, and the
  state is connected once the subscriber has returned. When decoding fails, no payload
  is handed over and the state becomes error with the message
  \<open>Error parsing data: \<close> followed by the decoder's message.
\<close>

theorem onmessage_counts_every_message:
  "messageCount (ws_onmessage JSON_parse event_data now s) = messageCount s + 1
   \<and> lastMessageTime (ws_onmessage JSON_parse event_data now s) = Some now
   \<and> sockets (ws_onmessage JSON_parse event_data now s) = sockets s
   \<and> ws (ws_onmessage JSON_parse event_data now s) = ws s
   \<and> (\<forall>data callback. JSON_parse event_data = Inr data \<and> messageCallback s = Some callback \<longrightarrow>
         delivered (ws_onmessage JSON_parse event_data now s) = delivered s @ [data])
   \<and> (\<forall>data callback. JSON_parse event_data = Inr data \<and> messageCallback s = Some callback
           \<and> callback data = None \<and> statusCallback s \<longrightarrow>
         current_status (ws_onmessage JSON_parse event_data now s) = Some Connected)
   \<and> (\<forall>message. JSON_parse event_data = Inl message \<longrightarrow>
         delivered (ws_onmessage JSON_parse event_data now s) = delivered s
         \<and> (statusCallback s \<longrightarrow>
              status_log (ws_onmessage JSON_parse event_data now s)
                = status_log s @ [(Error, ''Error parsing data: '' @ message)]))"
  by (cases "JSON_parse event_data")
    (auto simp: ws_onmessage_def Let_def updateStatus_def current_status_def split: option.splits)

theorem onmessage_counts_every_message_witness:
  "messageCount (ws_onmessage parse_stub ''{}'' 1000
       (socket_opens 0 (connect None sample_manager))) = 1
   \<and> delivered (ws_onmessage parse_stub ''{}'' 1000
       (socket_opens 0 (connect None sample_manager))) = [JObj []]
   \<and> current_status (ws_onmessage parse_stub ''{}'' 1000
       (socket_opens 0 (connect None sample_manager))) = Some Connected
   \<and> delivered (ws_onmessage parse_stub ''oops'' 1000
       (socket_opens 0 (connect None sample_manager))) = []
   \<and> sockets (ws_onmessage parse_stub ''oops'' 1000
       (socket_opens 0 (connect None sample_manager))) = [OPEN]
   \<and> status_log (ws_onmessage parse_stub ''oops'' 1000
       (socket_opens 0 (connect None sample_manager)))
       = [(Connecting, ''Connecting to ws://192.168.4.1/ws...''),
          (Connected, ''Connected - Waiting for data...''),
          (Error, ''Error parsing data: Unexpected token'')]"
proof -
  let ?S = "socket_opens 0 (connect None sample_manager)"
  have ok: "parse_stub ''{}'' = Inr (JObj [])"
    and bad: "parse_stub ''oops'' = Inl ''Unexpected token''"
    by (simp_all add: parse_stub_def)
  have S: "messageCallback ?S = Some (\<lambda>data. None)" "statusCallback ?S" "messageCount ?S = 0"
    "delivered ?S = []" "sockets ?S = [OPEN]"
    "status_log ?S = [(Connecting, ''Connecting to ws://192.168.4.1/ws...''),
                      (Connected, ''Connected - Waiting for data...'')]"
    by (simp_all add: ws_eval)
  show ?thesis
    using onmessage_counts_every_message [of parse_stub "''{}''" 1000 ?S]
      onmessage_counts_every_message [of parse_stub "''oops''" 1000 ?S]
    by (simp add: ok bad S)
qed

section \<open>Live data: the update rate\<close>

lemma calculateUpdateRate_spec_rate: "calculateUpdateRate s = spec_rate (updateRateWindow s)"
proof (cases "length (updateRateWindow s) < 2")
  case True
  then show ?thesis by (simp add: calculateUpdateRate_def spec_rate_def)
next
  case False
  then have ne: "updateRateWindow s \<noteq> []" by auto
  have l: "updateRateWindow s ! (length (updateRateWindow s) - 1) = last (updateRateWindow s)"
    using ne by (simp add: last_conv_nth)
  have h: "updateRateWindow s ! 0 = hd (updateRateWindow s)"
    using ne by (simp add: hd_conv_nth)
  have n: "real_of_int (int (length (updateRateWindow s)) - 1)
           = real (length (updateRateWindow s)) - 1"
    by simp
  show ?thesis using False
    by (simp only: calculateUpdateRate_def spec_rate_def l h n Let_def if_False simp_thms)
qed

lemma handle_empty_cells:
  "handleLiveData (JObj [(jstr ''cells'', JArr [])]) t s
   = (track_update t (s\<lparr>currentCells := []\<rparr>), None)"
  by (simp add: handleLiveData_def drawLiveCells_def)

lemma ten_samples:
  "updateRateWindow (foldl (\<lambda>s t. fst (handleLiveData (JObj [(jstr ''cells'', JArr [])]) t s))
      LiveDataManager [0, 100, 200, 300, 400, 500, 600, 700, 800, 900])
   = [0, 100, 200, 300, 400, 500, 600, 700, 800, 900]"
  by (simp add: handle_empty_cells track_update_def LiveDataManager_def)

lemma eleven_samples:
  "updateRateWindow (foldl (\<lambda>s t. fst (handleLiveData (JObj [(jstr ''cells'', JArr [])]) t s))
      LiveDataManager [0, 100, 200, 300, 400, 500, 600, 700, 800, 900, 1300])
   = [100, 200, 300, 400, 500, 600, 700, 800, 900, 1300]"
  by (simp add: handle_empty_cells track_update_def LiveDataManager_def)

lemma one_sample:
  "updateRateWindow (fst (handleLiveData (JObj [(jstr ''cells'', JArr [])]) t LiveDataManager))
   = [t]"
  by (simp add: handle_empty_cells track_update_def LiveDataManager_def)

text \<open>
  Claim C6. \<open>calculateUpdateRate\<close> returns
  \<open>(windowLength - 1) / (newestTimestamp - oldestTimestamp) * 1000\<close> over the update-rate
  window, and 0 when the window holds fewer than 2 samples or the time span is 0. Ten
  messages arriving at 0, 100, ..., 900 ms give a rate of 10; a single message gives 0;
  an eleventh message at 1300 ms pushes the oldest timestamp out, so the rate is then
  9 messages over 1200 ms, 7.5.
\<close>

theorem calculateUpdateRate_formula:
  "calculateUpdateRate s = spec_rate (updateRateWindow s)
   \<and> calculateUpdateRate
        (foldl (\<lambda>s t. fst (handleLiveData (JObj [(jstr ''cells'', JArr [])]) t s))
           LiveDataManager [0, 100, 200, 300, 400, 500, 600, 700, 800, 900]) = 10
   \<and> calculateUpdateRate
        (fst (handleLiveData (JObj [(jstr ''cells'', JArr [])]) t LiveDataManager)) = 0
   \<and> calculateUpdateRate
        (foldl (\<lambda>s t. fst (handleLiveData (JObj [(jstr ''cells'', JArr [])]) t s))
           LiveDataManager [0, 100, 200, 300, 400, 500, 600, 700, 800, 900, 1300]) = 15 / 2"
proof (intro conjI)
  show "calculateUpdateRate s = spec_rate (updateRateWindow s)"
    by (rule calculateUpdateRate_spec_rate)
  show "calculateUpdateRate
        (foldl (\<lambda>s t. fst (handleLiveData (JObj [(jstr ''cells'', JArr [])]) t s))
           LiveDataManager [0, 100, 200, 300, 400, 500, 600, 700, 800, 900]) = 10"
    unfolding calculateUpdateRate_def ten_samples by simp
  show "calculateUpdateRate
        (fst (handleLiveData (JObj [(jstr ''cells'', JArr [])]) t LiveDataManager)) = 0"
    unfolding calculateUpdateRate_def one_sample by simp
  show "calculateUpdateRate
        (foldl (\<lambda>s t. fst (handleLiveData (JObj [(jstr ''cells'', JArr [])]) t s))
           LiveDataManager [0, 100, 200, 300, 400, 500, 600, 700, 800, 900, 1300]) = 15 / 2"
    unfolding calculateUpdateRate_def eleven_samples by simp
qed

theorem calculateUpdateRate_formula_witness:
  "calculateUpdateRate LiveDataManager = 0
   \<and> calculateUpdateRate
        (foldl (\<lambda>s t. fst (handleLiveData (JObj [(jstr ''cells'', JArr [])]) t s))
           LiveDataManager [0, 100, 200, 300, 400, 500, 600, 700, 800, 900]) = 10"
  using calculateUpdateRate_formula [of LiveDataManager 0]
  by (simp add: spec_rate_def LiveDataManager_def)

section \<open>Live data: enabled cells\<close>

text \<open>The filter of \<open>handleLiveData\<close> keeps the cells whose \<open>enabled\<close> field is truthy,
  in message order.\<close>

lemma js_filter_total:
  assumes "\<forall>x\<in>set xs. p x = Some (q x)"
  shows "js_filter p xs = Some (filter q xs)"
  using assms by (induction xs) simp_all

lemma handleLiveData_filter:
  assumes "get_prop data (jstr ''cells'') = Some (JArr cs)" "\<forall>c\<in>set cs. \<not> nullish c"
  shows "currentCells (fst (handleLiveData data now s)) = filter spec_enabled cs"
proof -
  have "\<forall>c\<in>set cs. map_option truthy (get_prop c (jstr ''enabled'')) = Some (spec_enabled c)"
  proof
    fix c assume "c \<in> set cs"
    then have "\<not> nullish c" using assms(2) by blast
    then show "map_option truthy (get_prop c (jstr ''enabled'')) = Some (spec_enabled c)"
      by (cases c) (simp_all add: spec_enabled_def)
  qed
  then have f: "js_filter (\<lambda>cell. map_option truthy (get_prop cell (jstr ''enabled''))) cs
                = Some (filter spec_enabled cs)"
    by (rule js_filter_total)
  show ?thesis
    by (simp add: handleLiveData_def assms(1) f Let_def track_update_def split: option.splits)
qed

lemma parse_undefined:
  "parseInt JUndefined 10 = Some NaN"
  "parseInt JUndefined 16 = Some NaN"
  by (simp_all add: parse_eval)

lemma text_cell_drawn:
  "drawLiveCell (JObj [(jstr ''enabled'', e), (jstr ''str_value'', JStr (jstr ''a''))]) = None"
  "drawLiveCell (JObj [(jstr ''enabled'', e), (jstr ''str_value'', JStr (jstr ''c''))]) = None"
  by (simp_all add: drawLiveCell_def cell_rect_def geom_field_def parse_color_def
      parse_undefined or_default_def jstr_def)

lemma text_false_message_cells:
  "currentCells (fst (handleLiveData text_false_message 0 LiveDataManager))
     = [JObj [(jstr ''enabled'', JStr (jstr ''false'')), (jstr ''str_value'', JStr (jstr ''a''))],
        JObj [(jstr ''enabled'', JBool True), (jstr ''str_value'', JStr (jstr ''c''))]]"
  "snd (handleLiveData text_false_message 0 LiveDataManager) = None"
  by (simp_all add: text_false_message_def handleLiveData_def drawLiveCells_def text_cell_drawn
      track_update_def LiveDataManager_def Let_def jstr_def [of "''false''"])

text \<open>
  Claim C8 fails on the code. The editor stores the flag as the text \<open>true\<close> or
  \<open>false\<close> (new cells get the text \<open>true\<close>, the property panel offers the two texts),
  and the filter is commented \<open>Filter enabled cells only\<close>, but it tests the field for
  truthiness: a cell whose \<open>enabled\<close> is the text \<open>false\<close> stays in the cell set and
  is drawn without an error; only the cell whose \<open>enabled\<close> is the boolean \<open>false\<close>
  is left out.
\<close>

theorem text_false_cell_is_rendered:
  "get_prop text_false_message (jstr ''cells'')
     = Some (JArr [JObj [(jstr ''enabled'', JStr (jstr ''false'')),
                         (jstr ''str_value'', JStr (jstr ''a''))],
                   JObj [(jstr ''enabled'', JBool False),
                         (jstr ''str_value'', JStr (jstr ''b''))],
                   JObj [(jstr ''enabled'', JBool True),
                         (jstr ''str_value'', JStr (jstr ''c''))]])
   \<and> currentCells (fst (handleLiveData text_false_message 0 LiveDataManager))
     = [JObj [(jstr ''enabled'', JStr (jstr ''false'')), (jstr ''str_value'', JStr (jstr ''a''))],
        JObj [(jstr ''enabled'', JBool True), (jstr ''str_value'', JStr (jstr ''c''))]]
   \<and> snd (handleLiveData text_false_message 0 LiveDataManager) = None
   \<and> drawLiveCell (JObj [(jstr ''enabled'', JStr (jstr ''false'')),
                          (jstr ''str_value'', JStr (jstr ''a''))]) = None"
  by (simp only: text_false_message_cells text_cell_drawn simp_thms)
     (simp add: text_false_message_def)

theorem text_false_cell_is_rendered_witness:
  "length (currentCells (fst (handleLiveData text_false_message 0 LiveDataManager))) = 2
   \<and> get_prop (hd (currentCells (fst (handleLiveData text_false_message 0 LiveDataManager))))
         (jstr ''enabled'') = Some (JStr (jstr ''false''))
   \<and> truthy (JStr (jstr ''false''))"
  using text_false_cell_is_rendered by (simp add: jstr_def)

end
